theory Spec2Isabelle
  imports Complex_Main "HOL-Library.AList" "HOL-Library.Sublist"
begin

section \<open>JavaScript values\<close>

text \<open>
  A JavaScript number is \<open>NaN\<close>, one of the two infinities, or a finite value. Finite
  values are modelled as reals: the program only looks at the sign of a difference and at
  comparisons, which agree on doubles and on the reals they denote.
\<close>

datatype jsnum = NaN | NegInfinity | Finite real | PosInfinity

fun isNaN :: "jsnum \<Rightarrow> bool" where
  "isNaN NaN = True"
| "isNaN _ = False"

text \<open>\<open>a <= b\<close>: false as soon as one side is \<open>NaN\<close>.\<close>

fun js_le :: "jsnum \<Rightarrow> jsnum \<Rightarrow> bool" where
  "js_le NaN _ = False"
| "js_le _ NaN = False"
| "js_le NegInfinity _ = True"
| "js_le _ PosInfinity = True"
| "js_le (Finite x) (Finite y) = (x \<le> y)"
| "js_le _ _ = False"

text \<open>\<open>a >= b\<close>.\<close>

definition js_ge :: "jsnum \<Rightarrow> jsnum \<Rightarrow> bool" where
  "js_ge a b = js_le b a"

text \<open>\<open>a < b\<close>.\<close>

fun js_lt :: "jsnum \<Rightarrow> jsnum \<Rightarrow> bool" where
  "js_lt NaN _ = False"
| "js_lt _ NaN = False"
| "js_lt (Finite x) (Finite y) = (x < y)"
| "js_lt PosInfinity _ = False"
| "js_lt _ NegInfinity = False"
| "js_lt _ _ = True"

text \<open>\<open>a - b\<close>.\<close>

fun js_sub :: "jsnum \<Rightarrow> jsnum \<Rightarrow> jsnum" where
  "js_sub NaN _ = NaN"
| "js_sub _ NaN = NaN"
| "js_sub (Finite x) (Finite y) = Finite (x - y)"
| "js_sub PosInfinity PosInfinity = NaN"
| "js_sub NegInfinity NegInfinity = NaN"
| "js_sub PosInfinity _ = PosInfinity"
| "js_sub NegInfinity _ = NegInfinity"
| "js_sub (Finite _) PosInfinity = NegInfinity"
| "js_sub (Finite _) NegInfinity = PosInfinity"

text \<open>
  A cell of a row: \<open>string | number | boolean | null\<close>; reading a key that the row does
  not have gives \<open>undefined\<close>. Strings are sequences of code units.
\<close>

datatype jsval = Undefined | Null | Bool bool | Num jsnum | Str string

text \<open>
  The built-ins of the JavaScript engine that the program calls and that ECMAScript leaves
  to the implementation or that work on the decimal syntax of doubles. They are parameters
  of the model:
  \<^item> \<open>parseDate\<close>: the date parser behind \<open>Date.parse(s)\<close> and \<open>new Date(s)\<close>, giving the
    time value in milliseconds, or \<open>None\<close> where the engine gives \<open>NaN\<close>;
  \<open>parseNumber\<close>: \<open>Number(s)\<close> on a string;
  \<^item> \<open>showNumber\<close>: \<open>String(x)\<close> on a finite number;
  \<^item> \<open>localeCompare\<close>: \<open>a.localeCompare(b)\<close>, negative, zero or positive.
\<close>

record runtime =
  parseDate :: "string \<Rightarrow> int option"
  parseNumber :: "string \<Rightarrow> jsnum"
  showNumber :: "real \<Rightarrow> string"
  localeCompare :: "string \<Rightarrow> string \<Rightarrow> int"

definition Date_parse :: "runtime \<Rightarrow> string \<Rightarrow> jsnum" where
  "Date_parse rt s = (case parseDate rt s of None \<Rightarrow> NaN | Some t \<Rightarrow> Finite (of_int t))"

text \<open>\<open>new Date(s).getTime()\<close>: the constructor parses a string as \<open>Date.parse\<close> does.\<close>

definition Date_getTime :: "runtime \<Rightarrow> string \<Rightarrow> jsnum" where
  "Date_getTime rt s = Date_parse rt s"

definition Number_of :: "runtime \<Rightarrow> string \<Rightarrow> jsnum" where
  "Number_of rt s = parseNumber rt s"

text \<open>\<open>String(v)\<close>.\<close>

fun String_of :: "runtime \<Rightarrow> jsval \<Rightarrow> string" where
  "String_of rt Undefined = ''undefined''"
| "String_of rt Null = ''null''"
| "String_of rt (Bool b) = (if b then ''true'' else ''false'')"
| "String_of rt (Num NaN) = ''NaN''"
| "String_of rt (Num NegInfinity) = ''-Infinity''"
| "String_of rt (Num PosInfinity) = ''Infinity''"
| "String_of rt (Num (Finite x)) = showNumber rt x"
| "String_of rt (Str s) = s"

text \<open>A string in a condition: the empty string is falsy, every other string truthy.\<close>

definition truthy :: "string \<Rightarrow> bool" where
  "truthy s = (s \<noteq> [])"

section \<open>The tabular data model (types.ts)\<close>

text \<open>
  \<open>DataRow = Record<string, string | number | boolean | null>\<close>: an object, modelled as
  the list of its own properties in property order. \<open>row[key]\<close> is \<open>get row key\<close>.
\<close>

type_synonym DataRow = "(string \<times> jsval) list"

definition get :: "DataRow \<Rightarrow> string \<Rightarrow> jsval" where
  "get row key = (case map_of row key of None \<Rightarrow> Undefined | Some v \<Rightarrow> v)"

definition Object_keys :: "('k \<times> 'v) list \<Rightarrow> 'k list" where
  "Object_keys obj = map fst obj"

section \<open>FilterPanel: the filter evaluator (ChartWidget.tsx, lines 487-520)\<close>

text \<open>\<open>type FilterValue = string | { start: string; end: string }\<close>\<close>

record DateRange =
  start :: string
  end' :: string

datatype FilterValue = Category string | DateFilter DateRange

text \<open>
  The constants \<open>start\<close> and \<open>end\<close> of the date branch (lines 508-509): the time of the
  bound, or the sentinel when the bound is the empty string.
\<close>

definition startTime :: "runtime \<Rightarrow> DateRange \<Rightarrow> jsnum" where
  "startTime rt r = (if truthy (start r) then Date_getTime rt (start r) else NegInfinity)"

definition endTime :: "runtime \<Rightarrow> DateRange \<Rightarrow> jsnum" where
  "endTime rt r = (if truthy (end' r) then Date_getTime rt (end' r) else PosInfinity)"

text \<open>
  The callback of \<open>Object.entries(activeFilters).every\<close> for one row and one entry.
  \<open>typeof filterValue\<close> is \<open>'string'\<close> for \<open>Category\<close> and \<open>'object'\<close> for \<open>DateFilter\<close>, so
  the source's closing \<open>return true\<close> is never reached.
\<close>

definition matchesFilter :: "runtime \<Rightarrow> DataRow \<Rightarrow> string \<times> FilterValue \<Rightarrow> bool" where
  "matchesFilter rt row entry =
     (case entry of (key, filterValue) \<Rightarrow>
        let rowValue = get row key in
        if rowValue = Null \<or> rowValue = Undefined then False
        else (case filterValue of
            Category selected \<Rightarrow> String_of rt rowValue = selected
          | DateFilter r \<Rightarrow>
              let rowDate = Date_getTime rt (String_of rt rowValue)
              in if isNaN rowDate then False
                 else js_ge rowDate (startTime rt r) \<and> js_le rowDate (endTime rt r)))"

text \<open>The callback of \<open>data.filter\<close>.\<close>

definition keepRow :: "runtime \<Rightarrow> (string \<times> FilterValue) list \<Rightarrow> DataRow \<Rightarrow> bool" where
  "keepRow rt activeFilters row = list_all (matchesFilter rt row) activeFilters"

text \<open>
  Arrays are objects with an identity. The heap is the list of the arrays allocated so far
  and a reference is an index into it; \<open>data.filter\<close> allocates a new array.
\<close>

type_synonym ref = nat
type_synonym heap = "DataRow list list"

definition Array_filter :: "(DataRow \<Rightarrow> bool) \<Rightarrow> ref \<Rightarrow> heap \<Rightarrow> ref \<times> heap" where
  "Array_filter p a h = (length h, h @ [filter p (h ! a)])"

text \<open>
  The effect that applies the filters, with \<open>dataRef\<close> the reference held by the prop
  \<open>data\<close>: the result is the reference handed to \<open>onFilterChange\<close> and the heap
  afterwards.
\<close>

definition applyFilters ::
  "runtime \<Rightarrow> (string \<times> FilterValue) list \<Rightarrow> ref \<Rightarrow> heap \<Rightarrow> ref \<times> heap" where
  "applyFilters rt activeFilters dataRef h =
     (if length (Object_keys activeFilters) = 0 then (dataRef, h)
      else Array_filter (keepRow rt activeFilters) dataRef h)"

text \<open>
  The evaluator on values: the rows of the array handed to \<open>onFilterChange\<close> when the
  dataset \<open>D\<close> is the only array of the heap.
\<close>

definition evaluate :: "runtime \<Rightarrow> DataRow list \<Rightarrow> (string \<times> FilterValue) list \<Rightarrow> DataRow list" where
  "evaluate rt D C = (case applyFilters rt C 0 [D] of (r, h) \<Rightarrow> h ! r)"

section \<open>FilterPanel: the mutation handlers (ChartWidget.tsx, lines 522-549)\<close>

text \<open>
  \<open>activeFilters\<close> is an object used as a dictionary: the list of its entries in property
  order. \<open>{ ...prev }\<close> copies it, \<open>next[column] = v\<close> is \<open>AList.update\<close> (the key keeps
  its place, a new key goes last) and \<open>delete next[column]\<close> is \<open>AList.delete\<close>. Each
  handler is the function passed to \<open>setActiveFilters\<close>, from the previous mapping to the
  next one.
\<close>

definition handleCategoryChange ::
  "string \<Rightarrow> string \<Rightarrow> (string \<times> FilterValue) list \<Rightarrow> (string \<times> FilterValue) list" where
  "handleCategoryChange column newValue prev =
     (let next = prev in
      if newValue = '''' then AList.delete column next
      else AList.update column (Category newValue) next)"

datatype DateField = Start | End

text \<open>
  \<open>current\<close> is the entry of the column when there is one and it is truthy, else the
  range with two empty bounds. A category entry is a non-empty string there; spread into
  the new object it contributes neither a \<open>start\<close> nor an \<open>end\<close> property, and a missing
  bound is falsy as the empty bound is, so it is read as the range with two empty bounds.
\<close>

definition handleDateChange ::
  "string \<Rightarrow> DateField \<Rightarrow> string \<Rightarrow> (string \<times> FilterValue) list \<Rightarrow> (string \<times> FilterValue) list" where
  "handleDateChange column field newValue prev =
     (let next = prev;
          current = (case map_of next column of
                       Some (DateFilter r) \<Rightarrow> r
                     | _ \<Rightarrow> \<lparr>start = '''', end' = ''''\<rparr>);
          newDateRange = (case field of
                            Start \<Rightarrow> current\<lparr>start := newValue\<rparr>
                          | End \<Rightarrow> current\<lparr>end' := newValue\<rparr>)
      in if \<not> truthy (start newDateRange) \<and> \<not> truthy (end' newDateRange)
         then AList.delete column next
         else AList.update column (DateFilter newDateRange) next)"

section \<open>FilterPanel: the column classifier (ChartWidget.tsx, lines 429-485)\<close>

datatype ColumnType = categorical | date

text \<open>The fields \<open>min\<close> and \<open>max\<close> of the interface are never written.\<close>

record ColumnMeta =
  name :: string
  type :: ColumnType
  options :: "string list option"

text \<open>
  \<open>Array.from(new Set(values))\<close>: the distinct values in the order of their first
  occurrence. On strings, finite numbers, booleans and \<open>null\<close> the equality of a \<open>Set\<close>
  is the equality of \<open>jsval\<close>.
\<close>

definition Set_add :: "'a list \<Rightarrow> 'a \<Rightarrow> 'a list" where
  "Set_add s v = (if v \<in> set s then s else s @ [v])"

definition Array_from_Set :: "'a list \<Rightarrow> 'a list" where
  "Array_from_Set vs = foldl Set_add [] vs"

text \<open>
  \<open>Array.prototype.sort\<close> with a comparator: a stable sort in which \<open>x\<close> goes before \<open>y\<close>
  unless the comparator's result is greater than zero (\<open>NaN\<close> counts as zero). ECMAScript
  fixes the result for a consistent comparator, where every stable sort gives the same
  array; for any other comparator the order is left to the engine. The model is the stable
  insertion sort.
\<close>

fun insort_by :: "('a \<Rightarrow> 'a \<Rightarrow> jsnum) \<Rightarrow> 'a \<Rightarrow> 'a list \<Rightarrow> 'a list" where
  "insort_by cmp x [] = [x]"
| "insort_by cmp x (y # ys) =
     (if js_lt (Finite 0) (cmp x y) then y # insort_by cmp x ys else x # y # ys)"

definition Array_sort :: "('a \<Rightarrow> 'a \<Rightarrow> jsnum) \<Rightarrow> 'a list \<Rightarrow> 'a list" where
  "Array_sort cmp xs = foldr (insort_by cmp) xs []"

text \<open>The comparator of the options (lines 470-473).\<close>

definition compareOptions :: "runtime \<Rightarrow> jsval \<Rightarrow> jsval \<Rightarrow> jsnum" where
  "compareOptions rt a b =
     (case (a, b) of
        (Num x, Num y) \<Rightarrow> js_sub x y
      | _ \<Rightarrow> Finite (of_int (localeCompare rt (String_of rt a) (String_of rt b))))"


text \<open>\<open>values\<close> of the callback of \<open>headers.forEach\<close> (line 440).\<close>

definition columnValues :: "DataRow list \<Rightarrow> string \<Rightarrow> jsval list" where
  "columnValues sampleData header =
     filter (\<lambda>v. v \<noteq> Null \<and> v \<noteq> Undefined) (map (\<lambda>row. get row header) sampleData)"

text \<open>\<open>isDate\<close> of the callback (lines 449-456).\<close>

definition isDate :: "runtime \<Rightarrow> jsval \<Rightarrow> bool" where
  "isDate rt firstVal =
     (case firstVal of
        Str s \<Rightarrow>
          if length s > 5 then
            (let timestamp = Date_parse rt s
             in if \<not> isNaN timestamp \<and> isNaN (Number_of rt s) then True else False)
          else False
      | _ \<Rightarrow> False)"

text \<open>
  The callback of \<open>headers.forEach\<close> for one header: \<open>Some\<close> the descriptor it pushes on
  \<open>detectedColumns\<close>, \<open>None\<close> when it returns without pushing.
\<close>

definition classifyColumn :: "runtime \<Rightarrow> DataRow list \<Rightarrow> string \<Rightarrow> ColumnMeta option" where
  "classifyColumn rt sampleData header =
     (let vs = columnValues sampleData header in
      case vs of
        [] \<Rightarrow> None
      | firstVal # _ \<Rightarrow>
          let uniqueValues = Array_from_Set vs;
              isCategorical = (length uniqueValues \<le> 50)
          in if isDate rt firstVal then
               Some \<lparr>name = header, type = date, options = None\<rparr>
             else if isCategorical then
               let sortedOptions = map (String_of rt) (Array_sort (compareOptions rt) uniqueValues)
               in Some \<lparr>name = header, type = categorical, options = Some sortedOptions\<rparr>
             else None)"

text \<open>The state of the component that the claims are about.\<close>

record PanelState =
  columns :: "ColumnMeta list"
  activeFilters :: "(string \<times> FilterValue) list"




section \<open>dataService.ts: parseFile\<close>

record DataSet =
  fileName :: string
  headers :: "string list"
  data :: "DataRow list"
  rowCount :: nat

datatype Error = Error string

text \<open>The browser's \<open>File\<close>: \<open>file.name\<close> and \<open>file.type\<close>.\<close>

record File =
  fname :: string
  mimeType :: string

text \<open>
  What Papa.parse hands to \<open>complete\<close>: \<open>results.data\<close> (\<open>None\<close> when it is missing),
  \<open>results.errors\<close> and \<open>results.meta.fields\<close>.
\<close>

record PapaResults =
  results_data :: "DataRow list option"
  results_errors :: "string list"
  meta_fields :: "string list option"

text \<open>
  The third-party decoders, parameters of the model. \<open>Papa_parse\<close> is \<open>Inl\<close> when
  Papa.parse calls \<open>error\<close> and \<open>Inr\<close> when it calls \<open>complete\<close>. \<open>XLSX_decode\<close> stands for
  reading the file, \<open>XLSX.read\<close> and \<open>XLSX.utils.sheet_to_json\<close> on the first sheet:
  \<open>Inl\<close> when one of them throws or the reader fails, else the rows.
\<close>

record decoders =
  Papa_parse :: "File \<Rightarrow> Error + PapaResults"
  XLSX_decode :: "File \<Rightarrow> Error + DataRow list option"

text \<open>\<open>s.split(sep)\<close> for a separator of one code unit.\<close>

fun split :: "char \<Rightarrow> string \<Rightarrow> string list" where
  "split sep [] = [[]]"
| "split sep (c # cs) =
     (if c = sep then [] # split sep cs
      else (case split sep cs of
              [] \<Rightarrow> [[c]]
            | seg # segs \<Rightarrow> (c # seg) # segs))"

text \<open>\<open>xs.pop()\<close>: the last element, \<open>undefined\<close> on the empty array.\<close>

definition pop :: "'a list \<Rightarrow> 'a option" where
  "pop xs = (if xs = [] then None else Some (last xs))"

text \<open>\<open>s.toLowerCase()\<close> on the letters A to Z; other code units stay.\<close>

definition lowerCaseOf :: "char \<Rightarrow> char" where
  "lowerCaseOf c =
     (case map_of (zip ''ABCDEFGHIJKLMNOPQRSTUVWXYZ'' ''abcdefghijklmnopqrstuvwxyz'') c of
        None \<Rightarrow> c
      | Some l \<Rightarrow> l)"

definition toLowerCase :: "string \<Rightarrow> string" where
  "toLowerCase s = map lowerCaseOf s"

definition parseCSV :: "decoders \<Rightarrow> File \<Rightarrow> Error + DataSet" where
  "parseCSV env file =
     (case Papa_parse env file of
        Inl error \<Rightarrow> Inl error
      | Inr results \<Rightarrow>
          (case results_data results of
             None \<Rightarrow> Inl (Error ''No data found in CSV file'')
           | Some d \<Rightarrow>
               if length d = 0 then Inl (Error ''No data found in CSV file'')
               else Inr \<lparr>fileName = fname file,
                         headers = (case meta_fields results of
                                      Some metaFields \<Rightarrow> metaFields
                                    | None \<Rightarrow> Object_keys (hd d)),
                         data = d,
                         rowCount = length d\<rparr>))"

definition parseExcel :: "decoders \<Rightarrow> File \<Rightarrow> Error + DataSet" where
  "parseExcel env file =
     (case XLSX_decode env file of
        Inl error \<Rightarrow> Inl error
      | Inr None \<Rightarrow> Inl (Error ''No data found in Excel file'')
      | Inr (Some jsonData) \<Rightarrow>
          if length jsonData = 0 then Inl (Error ''No data found in Excel file'')
          else Inr \<lparr>fileName = fname file,
                    headers = Object_keys (hd jsonData),
                    data = jsonData,
                    rowCount = length jsonData\<rparr>)"

definition parseFile :: "decoders \<Rightarrow> File \<Rightarrow> Error + DataSet" where
  "parseFile env file =
     (let extension = map_option toLowerCase (pop (split (CHR ''.'') (fname file))) in
      if extension = Some ''csv'' then parseCSV env file
      else if (case extension of None \<Rightarrow> '''' | Some e \<Rightarrow> e) \<in> set [''xls'', ''xlsx'']
      then parseExcel env file
      else Inl (Error ''Unsupported file format. Please upload CSV or Excel files.''))"

section \<open>A sample engine for evaluating the model\<close>

text \<open>
  One instance of the parameters, used where a statement is evaluated at a concrete input.
  It is the engine restricted to plain input: dates in the ISO form \<open>YYYY-MM-DD\<close> (UTC
  midnight, in milliseconds since 1970-01-01), numbers written as unsigned decimal digits,
  the decimal form of integers, and strings compared code unit by code unit.
\<close>

definition digit_val :: "char \<Rightarrow> nat option" where
  "digit_val c = (let n = (of_char c :: nat) in if 48 \<le> n \<and> n \<le> 57 then Some (n - 48) else None)"

fun digits_val :: "nat \<Rightarrow> string \<Rightarrow> nat option" where
  "digits_val acc [] = Some acc"
| "digits_val acc (c # cs) =
     (case digit_val c of None \<Rightarrow> None | Some d \<Rightarrow> digits_val (10 * acc + d) cs)"

text \<open>Days from 1970-01-01 to a date of the proleptic Gregorian calendar.\<close>

definition days_from_civil :: "int \<Rightarrow> int \<Rightarrow> int \<Rightarrow> int" where
  "days_from_civil y m d =
     (let y' = (if m \<le> 2 then y - 1 else y);
          era = y' div 400;
          yoe = y' - era * 400;
          mp = (m + 9) mod 12;
          doy = (153 * mp + 2) div 5 + d - 1;
          doe = yoe * 365 + yoe div 4 - yoe div 100 + doy
      in era * 146097 + doe - 719468)"

definition iso_parseDate :: "string \<Rightarrow> int option" where
  "iso_parseDate s =
     (if length s = 10 \<and> s ! 4 = CHR ''-'' \<and> s ! 7 = CHR ''-'' then
        (case (digits_val 0 (take 4 s), digits_val 0 (take 2 (drop 5 s)), digits_val 0 (drop 8 s)) of
           (Some y, Some m, Some d) \<Rightarrow>
             if 1 \<le> m \<and> m \<le> 12 \<and> 1 \<le> d \<and> d \<le> 31
             then Some (days_from_civil (int y) (int m) (int d) * 86400000)
             else None
         | _ \<Rightarrow> None)
      else None)"

definition digits_parseNumber :: "string \<Rightarrow> jsnum" where
  "digits_parseNumber s =
     (case digits_val 0 s of None \<Rightarrow> NaN | Some n \<Rightarrow> Finite (of_nat n))"

fun decimal :: "nat \<Rightarrow> string" where
  "decimal n =
     (if n < 10 then [''0123456789'' ! n]
      else decimal (n div 10) @ [''0123456789'' ! (n mod 10)])"

declare decimal.simps [simp del]

definition integer_showNumber :: "real \<Rightarrow> string" where
  "integer_showNumber x =
     (if x < 0 then CHR ''-'' # decimal (nat \<lfloor>- x\<rfloor>) else decimal (nat \<lfloor>x\<rfloor>))"

fun codeunit_compare :: "string \<Rightarrow> string \<Rightarrow> int" where
  "codeunit_compare [] [] = 0"
| "codeunit_compare [] (y # ys) = - 1"
| "codeunit_compare (x # xs) [] = 1"
| "codeunit_compare (x # xs) (y # ys) =
     (if (of_char x :: nat) < of_char y then - 1
      else if (of_char y :: nat) < of_char x then 1
      else codeunit_compare xs ys)"

definition sample_runtime :: runtime where
  "sample_runtime =
     \<lparr>parseDate = iso_parseDate,
      parseNumber = digits_parseNumber,
      showNumber = integer_showNumber,
      localeCompare = codeunit_compare\<rparr>"

section \<open>Notions of the specification\<close>

text \<open>
  The extension of a file name, as the specification uses the word: what stands behind
  the last dot of the name (the whole name when it has no dot), in lower case.
\<close>

definition nameExtension :: "string \<Rightarrow> string" where
  "nameExtension s = toLowerCase (rev (takeWhile (\<lambda>c. c \<noteq> CHR ''.'') (rev s)))"

text \<open>
  \<open>x\<close> may stand before \<open>y\<close> in an array sorted with the comparator \<open>cmp\<close>: the
  comparator does not put \<open>x\<close> after \<open>y\<close>.
\<close>

definition precedes :: "('a \<Rightarrow> 'a \<Rightarrow> jsnum) \<Rightarrow> 'a \<Rightarrow> 'a \<Rightarrow> bool" where
  "precedes cmp x y = (\<not> js_lt (Finite 0) (cmp x y))"

text \<open>
  A string comparison that is a linear order, as the lexicographic order of the
  specification is: total, transitive, and zero on equal strings only.
\<close>

definition linear_compare :: "(string \<Rightarrow> string \<Rightarrow> int) \<Rightarrow> bool" where
  "linear_compare lc =
     ((\<forall>a b. lc a b \<le> 0 \<or> lc b a \<le> 0)
      \<and> (\<forall>a b c. lc a b \<le> 0 \<and> lc b c \<le> 0 \<longrightarrow> lc a c \<le> 0)
      \<and> (\<forall>a b. lc a b \<le> 0 \<and> lc b a \<le> 0 \<longrightarrow> a = b))"

text \<open>A column of numbers only (none of them \<open>NaN\<close>), and a column of strings only.\<close>

fun isNumber :: "jsval \<Rightarrow> bool" where
  "isNumber (Num n) = (\<not> isNaN n)"
| "isNumber _ = False"

fun isString :: "jsval \<Rightarrow> bool" where
  "isString (Str s) = True"
| "isString _ = False"

section \<open>Properties of the filter evaluator\<close>

lemma evaluate_eq:
  "evaluate rt D C = (if C = [] then D else filter (keepRow rt C) D)"
  by (simp add: evaluate_def applyFilters_def Object_keys_def Array_filter_def)





lemma js_le_startTime:
  "js_le (startTime rt r) (Finite (of_int t)) \<longleftrightarrow>
     (start r = '''' \<or> (\<exists>s. parseDate rt (start r) = Some s \<and> s \<le> t))"
  by (auto simp: startTime_def truthy_def Date_getTime_def Date_parse_def split: option.splits)

lemma js_le_endTime:
  "js_le (Finite (of_int t)) (endTime rt r) \<longleftrightarrow>
     (end' r = '''' \<or> (\<exists>e. parseDate rt (end' r) = Some e \<and> t \<le> e))"
  by (auto simp: endTime_def truthy_def Date_getTime_def Date_parse_def split: option.splits)

lemma count_list_filter_le: "count_list (filter P xs) x \<le> count_list xs x"
  by (induction xs) auto

text \<open>
  A filter with at least one entry allocates the array it publishes: the reference differs
  from the one of the dataset, whose rows stay as they were.
\<close>

lemma applyFilters_fresh:
  assumes "C \<noteq> []" and "dataRef < length h"
  shows "fst (applyFilters rt C dataRef h) \<noteq> dataRef"
    and "snd (applyFilters rt C dataRef h) ! dataRef = h ! dataRef"
  using assms by (simp_all add: applyFilters_def Object_keys_def Array_filter_def nth_append)

text \<open>
  On every heap the array that the effect publishes holds the rows that \<open>evaluate\<close>
  computes from the rows of the dataset.
\<close>

lemma applyFilters_value:
  assumes "dataRef < length h"
  shows "(case applyFilters rt C dataRef h of (r, h') \<Rightarrow> h' ! r) = evaluate rt (h ! dataRef) C"
  using assms
  by (simp add: evaluate_eq applyFilters_def Object_keys_def Array_filter_def nth_append)

text \<open>
  Claim C5. With an empty constraint mapping the evaluator publishes the dataset itself:
  the reference handed to \<open>onFilterChange\<close> is the reference of the dataset, no array is
  allocated and the heap is unchanged; on values, \<open>evaluate D {} = D\<close>.
\<close>

theorem evaluate_empty_constraints:
  "applyFilters rt [] dataRef h = (dataRef, h) \<and> evaluate rt D [] = D"
  by (simp add: evaluate_eq applyFilters_def Object_keys_def)

theorem evaluate_empty_constraints_witness:
  "applyFilters sample_runtime [] 0 [[[(''Region'', Str ''West'')], [(''Region'', Null)]]]
     = (0, [[[(''Region'', Str ''West'')], [(''Region'', Null)]]])
   \<and> evaluate sample_runtime [[(''Region'', Str ''West'')], [(''Region'', Null)]] []
     = [[(''Region'', Str ''West'')], [(''Region'', Null)]]"
  using evaluate_empty_constraints
    [of sample_runtime 0 "[[[(''Region'', Str ''West'')], [(''Region'', Null)]]]"
        "[[(''Region'', Str ''West'')], [(''Region'', Null)]]"]
  by simp

text \<open>
  Claim C6. For every dataset and every constraint mapping the output is a subsequence of
  the dataset: the rows that are kept stand in their original order, every output row is a
  row of the dataset, and no row occurs more often in the output than in the dataset.
\<close>

theorem evaluate_subsequence:
  "subseq (evaluate rt D C) D
   \<and> set (evaluate rt D C) \<subseteq> set D
   \<and> (\<forall>row. count_list (evaluate rt D C) row \<le> count_list D row)"
  by (simp add: evaluate_eq count_list_filter_le)

theorem evaluate_subsequence_witness:
  "evaluate sample_runtime
     [[(''Region'', Str ''West''), (''Id'', Num (Finite 1))],
      [(''Region'', Str ''East''), (''Id'', Num (Finite 2))],
      [(''Region'', Str ''West''), (''Id'', Num (Finite 3))]]
     [(''Region'', Category ''West'')]
   = [[(''Region'', Str ''West''), (''Id'', Num (Finite 1))],
      [(''Region'', Str ''West''), (''Id'', Num (Finite 3))]]
   \<and> subseq
       [[(''Region'', Str ''West''), (''Id'', Num (Finite 1))],
        [(''Region'', Str ''West''), (''Id'', Num (Finite 3))]]
       [[(''Region'', Str ''West''), (''Id'', Num (Finite 1))],
        [(''Region'', Str ''East''), (''Id'', Num (Finite 2))],
        [(''Region'', Str ''West''), (''Id'', Num (Finite 3))]]"
proof -
  let ?D = "[[(''Region'', Str ''West''), (''Id'', Num (Finite 1))],
      [(''Region'', Str ''East''), (''Id'', Num (Finite 2))],
      [(''Region'', Str ''West''), (''Id'', Num (Finite 3))]]"
  let ?C = "[(''Region'', Category ''West'')]"
  have e: "evaluate sample_runtime ?D ?C
      = [[(''Region'', Str ''West''), (''Id'', Num (Finite 1))],
         [(''Region'', Str ''West''), (''Id'', Num (Finite 3))]]"
    by (simp add: evaluate_eq keepRow_def matchesFilter_def get_def)
  from evaluate_subsequence [of sample_runtime ?D ?C]
  have "subseq (evaluate sample_runtime ?D ?C) ?D" by (rule conjunct1)
  with e show ?thesis by simp
qed



text \<open>
  Claim C2. A row satisfies a date-range entry iff it has a value for the column that is
  neither null nor undefined, the string form of the value parses as a date with time
  \<open>t\<close>, and \<open>t\<close> lies between the bounds, both included: an empty start bound puts no
  lower limit (the code compares with the sentinel \<open>-Infinity\<close>), an empty end bound no
  upper limit (the sentinel \<open>Infinity\<close>). A row whose value does not parse is excluded.
\<close>

theorem date_range_constraint:
  "(matchesFilter rt row (column, DateFilter r) \<longleftrightarrow>
     (\<exists>v t. map_of row column = Some v \<and> v \<noteq> Null \<and> v \<noteq> Undefined
        \<and> parseDate rt (String_of rt v) = Some t
        \<and> (start r = '''' \<or> (\<exists>s. parseDate rt (start r) = Some s \<and> s \<le> t))
        \<and> (end' r = '''' \<or> (\<exists>e. parseDate rt (end' r) = Some e \<and> t \<le> e))))
   \<and> startTime rt (r\<lparr>start := ''''\<rparr>) = NegInfinity
   \<and> endTime rt (r\<lparr>end' := ''''\<rparr>) = PosInfinity"
proof -
  have "matchesFilter rt row (column, DateFilter r) \<longleftrightarrow>
     (\<exists>v t. map_of row column = Some v \<and> v \<noteq> Null \<and> v \<noteq> Undefined
        \<and> parseDate rt (String_of rt v) = Some t
        \<and> (start r = '''' \<or> (\<exists>s. parseDate rt (start r) = Some s \<and> s \<le> t))
        \<and> (end' r = '''' \<or> (\<exists>e. parseDate rt (end' r) = Some e \<and> t \<le> e)))"
  proof (cases "map_of row column")
    case None
    then show ?thesis by (simp add: matchesFilter_def get_def)
  next
    case (Some v)
    show ?thesis
    proof (cases "parseDate rt (String_of rt v)")
      case None
      with Some show ?thesis
        by (simp add: matchesFilter_def get_def Let_def Date_getTime_def Date_parse_def)
    next
      case (Some t)
      with \<open>map_of row column = Some v\<close> show ?thesis
        by (simp add: matchesFilter_def get_def Let_def Date_getTime_def [of rt "String_of rt v"]
            Date_parse_def [of rt "String_of rt v"] js_ge_def js_le_startTime js_le_endTime)
    qed
  qed
  then show ?thesis by (simp add: startTime_def endTime_def truthy_def)
qed

theorem date_range_constraint_witness:
  "evaluate sample_runtime
     [[(''Signup_Date'', Str ''2022-12-31'')],
      [(''Signup_Date'', Str ''2023-01-01'')],
      [(''Signup_Date'', Str ''n/a'')],
      [(''Signup_Date'', Str ''2023-06-30'')],
      [(''Signup_Date'', Null)],
      [(''Signup_Date'', Str ''2023-07-01'')]]
     [(''Signup_Date'', DateFilter \<lparr>start = ''2023-01-01'', end' = ''2023-06-30''\<rparr>)]
   = [[(''Signup_Date'', Str ''2023-01-01'')], [(''Signup_Date'', Str ''2023-06-30'')]]"
proof -
  let ?r = "\<lparr>start = ''2023-01-01'', end' = ''2023-06-30''\<rparr>"
  have p: "iso_parseDate ''2022-12-31'' = Some 1672444800000"
    "iso_parseDate ''2023-01-01'' = Some 1672531200000"
    "iso_parseDate ''n/a'' = None"
    "iso_parseDate ''2023-06-30'' = Some 1688083200000"
    "iso_parseDate ''2023-07-01'' = Some 1688169600000"
    by (simp_all add: iso_parseDate_def digit_val_def days_from_civil_def)
  have m: "matchesFilter sample_runtime row (''Signup_Date'', DateFilter ?r) \<longleftrightarrow>
     (\<exists>v t. map_of row ''Signup_Date'' = Some v \<and> v \<noteq> Null \<and> v \<noteq> Undefined
        \<and> iso_parseDate (String_of sample_runtime v) = Some t
        \<and> 1672531200000 \<le> t \<and> t \<le> 1688083200000)" for row
    using date_range_constraint [of sample_runtime row "''Signup_Date''" ?r]
    by (simp add: sample_runtime_def p)
  show ?thesis
    by (simp add: evaluate_eq keepRow_def m p)
qed

section \<open>Properties of the mutation handlers\<close>

lemma delete_as_filter: "AList.delete k al = filter (\<lambda>e. fst e \<noteq> k) al"
  by (induction al) auto

lemma update_others: "filter (\<lambda>e. fst e \<noteq> k) (AList.update k v al) = filter (\<lambda>e. fst e \<noteq> k) al"
  by (induction al) auto

lemma delete_others: "filter (\<lambda>e. fst e \<noteq> k) (AList.delete k al) = filter (\<lambda>e. fst e \<noteq> k) al"
  by (simp add: delete_as_filter)

lemma handleCategoryChange_others:
  "filter (\<lambda>e. fst e \<noteq> column) (handleCategoryChange column v M)
     = filter (\<lambda>e. fst e \<noteq> column) M"
  by (simp add: handleCategoryChange_def update_others delete_others)

lemma handleDateChange_others:
  "filter (\<lambda>e. fst e \<noteq> column) (handleDateChange column field v M)
     = filter (\<lambda>e. fst e \<noteq> column) M"
  by (simp add: handleDateChange_def Let_def update_others delete_others)

lemma handleCategoryChange_map_of:
  "column' \<noteq> column \<Longrightarrow> map_of (handleCategoryChange column v M) column' = map_of M column'"
  by (simp add: handleCategoryChange_def update_conv' delete_conv')

lemma handleDateChange_map_of:
  "column' \<noteq> column \<Longrightarrow> map_of (handleDateChange column field v M) column' = map_of M column'"
  by (simp add: handleDateChange_def Let_def update_conv' delete_conv')

lemma set_then_clear:
  "column \<notin> set (Object_keys M) \<Longrightarrow>
     handleCategoryChange column '''' (handleCategoryChange column v M) = M"
  by (simp add: handleCategoryChange_def Object_keys_def delete_update_same)

lemma clear_removes_entry:
  "column \<notin> set (Object_keys (handleCategoryChange column '''' M))"
  by (simp add: handleCategoryChange_def Object_keys_def delete_notin_dom)

lemma category_entry_not_empty:
  "map_of (handleCategoryChange column v M) column \<noteq> Some (Category '''')"
  by (simp add: handleCategoryChange_def update_conv' delete_conv')

lemma date_entry_not_empty:
  "map_of (handleDateChange column field v M) column = Some (DateFilter r) \<Longrightarrow>
     start r \<noteq> '''' \<or> end' r \<noteq> ''''"
  by (auto simp: handleDateChange_def Let_def update_conv' delete_conv' truthy_def
      split: if_splits)

lemma clear_start_removes_entry:
  "(case map_of M column of Some (DateFilter r) \<Rightarrow> end' r = '''' | _ \<Rightarrow> True) \<Longrightarrow>
     column \<notin> set (Object_keys (handleDateChange column Start '''' M))"
  by (auto simp: handleDateChange_def Let_def Object_keys_def delete_notin_dom truthy_def
      split: option.splits FilterValue.splits)

lemma clear_end_removes_entry:
  "(case map_of M column of Some (DateFilter r) \<Rightarrow> start r = '''' | _ \<Rightarrow> True) \<Longrightarrow>
     column \<notin> set (Object_keys (handleDateChange column End '''' M))"
  by (auto simp: handleDateChange_def Let_def Object_keys_def delete_notin_dom truthy_def
      split: option.splits FilterValue.splits)

text \<open>
  Claim C8. Selecting the empty value in a category control removes the column's entry
  from the mapping, and no handler ever stores an empty constraint: a category entry is
  never the empty string and a date entry never has two empty bounds. Emptying one bound
  of a date control removes the entry when the other bound is empty. Hence setting a
  category on a column that had no entry and clearing it again gives the mapping back;
  starting from no filters, the evaluator then publishes the full dataset itself.
\<close>

theorem clearing_removes_entry:
  "column \<notin> set (Object_keys (handleCategoryChange column '''' M))
   \<and> map_of (handleCategoryChange column v M) column \<noteq> Some (Category '''')
   \<and> (\<forall>r. map_of (handleDateChange column field v M) column = Some (DateFilter r) \<longrightarrow>
          start r \<noteq> '''' \<or> end' r \<noteq> '''')
   \<and> ((case map_of M column of Some (DateFilter r) \<Rightarrow> end' r = '''' | _ \<Rightarrow> True) \<longrightarrow>
          column \<notin> set (Object_keys (handleDateChange column Start '''' M)))
   \<and> ((case map_of M column of Some (DateFilter r) \<Rightarrow> start r = '''' | _ \<Rightarrow> True) \<longrightarrow>
          column \<notin> set (Object_keys (handleDateChange column End '''' M)))
   \<and> (column \<notin> set (Object_keys M) \<longrightarrow>
          handleCategoryChange column '''' (handleCategoryChange column v M) = M)
   \<and> evaluate rt D (handleCategoryChange column '''' (handleCategoryChange column v [])) = D
   \<and> applyFilters rt (handleCategoryChange column '''' (handleCategoryChange column v []))
        dataRef h = (dataRef, h)"
proof -
  have e: "handleCategoryChange column '''' (handleCategoryChange column v []) = []"
    by (simp add: set_then_clear Object_keys_def)
  have 1: "evaluate rt D (handleCategoryChange column '''' (handleCategoryChange column v [])) = D"
    by (simp add: e evaluate_eq)
  have 2: "applyFilters rt (handleCategoryChange column '''' (handleCategoryChange column v []))
        dataRef h = (dataRef, h)"
    by (simp add: e applyFilters_def Object_keys_def)
  have 3: "\<forall>r. map_of (handleDateChange column field v M) column = Some (DateFilter r) \<longrightarrow>
          start r \<noteq> '''' \<or> end' r \<noteq> ''''"
    by (intro allI impI) (rule date_entry_not_empty)
  have 4: "(case map_of M column of Some (DateFilter r) \<Rightarrow> end' r = '''' | _ \<Rightarrow> True) \<longrightarrow>
          column \<notin> set (Object_keys (handleDateChange column Start '''' M))"
    by (intro impI) (rule clear_start_removes_entry)
  have 5: "(case map_of M column of Some (DateFilter r) \<Rightarrow> start r = '''' | _ \<Rightarrow> True) \<longrightarrow>
          column \<notin> set (Object_keys (handleDateChange column End '''' M))"
    by (intro impI) (rule clear_end_removes_entry)
  have 6: "column \<notin> set (Object_keys M) \<longrightarrow>
          handleCategoryChange column '''' (handleCategoryChange column v M) = M"
    by (intro impI) (rule set_then_clear)
  show ?thesis
    by (intro conjI) (rule clear_removes_entry category_entry_not_empty 1 2 3 4 5 6)+
qed

theorem clearing_removes_entry_witness:
  "handleCategoryChange ''Region'' ''''
        (handleCategoryChange ''Region'' ''West''
          [(''Signup'', DateFilter \<lparr>start = ''2023-01-01'', end' = ''''\<rparr>)])
     = [(''Signup'', DateFilter \<lparr>start = ''2023-01-01'', end' = ''''\<rparr>)]
   \<and> ''Signup'' \<notin> set (Object_keys (handleDateChange ''Signup'' Start ''''
        [(''Signup'', DateFilter \<lparr>start = ''2023-01-01'', end' = ''''\<rparr>)]))
   \<and> evaluate sample_runtime [[(''Region'', Str ''West'')], [(''Region'', Str ''East'')]]
        (handleCategoryChange ''Region'' '''' (handleCategoryChange ''Region'' ''West'' []))
     = [[(''Region'', Str ''West'')], [(''Region'', Str ''East'')]]"
proof -
  let ?M = "[(''Signup'', DateFilter \<lparr>start = ''2023-01-01'', end' = ''''\<rparr>)]"
  have k: "''Region'' \<notin> set (Object_keys ?M)"
    and c: "(case map_of ?M ''Signup'' of Some (DateFilter r) \<Rightarrow> end' r = '''' | _ \<Rightarrow> True)"
    by (simp_all add: Object_keys_def)
  note t1 = clearing_removes_entry [of "''Region''" ?M "''West''" Start sample_runtime
      "[[(''Region'', Str ''West'')], [(''Region'', Str ''East'')]]" 0 "[]"]
  note t2 = clearing_removes_entry [of "''Signup''" ?M "''''" Start sample_runtime "[]" 0 "[]"]
  from t1 have "''Region'' \<notin> set (Object_keys ?M) \<longrightarrow>
      handleCategoryChange ''Region'' '''' (handleCategoryChange ''Region'' ''West'' ?M) = ?M"
    by (elim conjE)
  with k have 1: "handleCategoryChange ''Region'' '''' (handleCategoryChange ''Region'' ''West'' ?M) = ?M"
    by (rule rev_mp)
  from t1 have 2: "evaluate sample_runtime [[(''Region'', Str ''West'')], [(''Region'', Str ''East'')]]
        (handleCategoryChange ''Region'' '''' (handleCategoryChange ''Region'' ''West'' []))
     = [[(''Region'', Str ''West'')], [(''Region'', Str ''East'')]]"
    by (elim conjE)
  from t2 have "(case map_of ?M ''Signup'' of Some (DateFilter r) \<Rightarrow> end' r = '''' | _ \<Rightarrow> True)
      \<longrightarrow> ''Signup'' \<notin> set (Object_keys (handleDateChange ''Signup'' Start '''' ?M))"
    by (elim conjE)
  with c have 3: "''Signup'' \<notin> set (Object_keys (handleDateChange ''Signup'' Start '''' ?M))"
    by (rule rev_mp)
  from 1 2 3 show ?thesis by (intro conjI)
qed

text \<open>
  Claim C10. A handler called for one column leaves every other column's entry as it was:
  the entries of the other columns are the same, in the same order, before and after, so
  the mapping agrees with the previous one on every other column; nothing is added,
  removed or altered there.
\<close>

theorem handlers_frame:
  "filter (\<lambda>e. fst e \<noteq> column) (handleCategoryChange column v M)
     = filter (\<lambda>e. fst e \<noteq> column) M
   \<and> filter (\<lambda>e. fst e \<noteq> column) (handleDateChange column field v M)
     = filter (\<lambda>e. fst e \<noteq> column) M
   \<and> (\<forall>column'. column' \<noteq> column \<longrightarrow>
          map_of (handleCategoryChange column v M) column' = map_of M column'
          \<and> map_of (handleDateChange column field v M) column' = map_of M column')"
  by (simp add: handleCategoryChange_others handleDateChange_others
      handleCategoryChange_map_of handleDateChange_map_of)

theorem handlers_frame_witness:
  "''Signup'' \<noteq> ''Region''
   \<and> map_of (handleCategoryChange ''Region'' ''''
        [(''Region'', Category ''West''),
         (''Signup'', DateFilter \<lparr>start = ''2023-01-01'', end' = ''''\<rparr>)]) ''Signup''
     = Some (DateFilter \<lparr>start = ''2023-01-01'', end' = ''''\<rparr>)
   \<and> map_of (handleDateChange ''Region'' End ''2023-06-30''
        [(''Region'', Category ''West''),
         (''Signup'', DateFilter \<lparr>start = ''2023-01-01'', end' = ''''\<rparr>)]) ''Signup''
     = Some (DateFilter \<lparr>start = ''2023-01-01'', end' = ''''\<rparr>)"
proof -
  let ?M = "[(''Region'', Category ''West''),
         (''Signup'', DateFilter \<lparr>start = ''2023-01-01'', end' = ''''\<rparr>)]"
  have ne: "''Signup'' \<noteq> ''Region''" by simp
  have m: "map_of ?M ''Signup'' = Some (DateFilter \<lparr>start = ''2023-01-01'', end' = ''''\<rparr>)"
    by simp
  from handlers_frame [of "''Region''" "''''" ?M End]
  have "\<forall>column'. column' \<noteq> ''Region'' \<longrightarrow>
          map_of (handleCategoryChange ''Region'' '''' ?M) column' = map_of ?M column'
          \<and> map_of (handleDateChange ''Region'' End '''' ?M) column' = map_of ?M column'"
    by (elim conjE)
  then have "''Signup'' \<noteq> ''Region'' \<longrightarrow>
          map_of (handleCategoryChange ''Region'' '''' ?M) ''Signup'' = map_of ?M ''Signup''
          \<and> map_of (handleDateChange ''Region'' End '''' ?M) ''Signup'' = map_of ?M ''Signup''"
    by (rule spec)
  with ne have 1: "map_of (handleCategoryChange ''Region'' '''' ?M) ''Signup'' = map_of ?M ''Signup''"
    by (elim impE conjE)
  from handlers_frame [of "''Region''" "''2023-06-30''" ?M End]
  have "\<forall>column'. column' \<noteq> ''Region'' \<longrightarrow>
          map_of (handleCategoryChange ''Region'' ''2023-06-30'' ?M) column' = map_of ?M column'
          \<and> map_of (handleDateChange ''Region'' End ''2023-06-30'' ?M) column' = map_of ?M column'"
    by (elim conjE)
  then have "''Signup'' \<noteq> ''Region'' \<longrightarrow>
          map_of (handleCategoryChange ''Region'' ''2023-06-30'' ?M) ''Signup'' = map_of ?M ''Signup''
          \<and> map_of (handleDateChange ''Region'' End ''2023-06-30'' ?M) ''Signup'' = map_of ?M ''Signup''"
    by (rule spec)
  with ne have 2: "map_of (handleDateChange ''Region'' End ''2023-06-30'' ?M) ''Signup'' = map_of ?M ''Signup''"
    by (elim impE conjE)
  from ne 1 2 show ?thesis unfolding m by (intro conjI)
qed

section \<open>Properties of parseFile\<close>

lemma split_not_Nil: "split sep s \<noteq> []"
  by (induction s) (auto split: list.splits)

lemma split_no_sep: "sep \<notin> set s \<Longrightarrow> split sep s = [s]"
  by (induction s) auto

lemma split_with_sep: "sep \<in> set s \<Longrightarrow> tl (split sep s) \<noteq> []"
  by (induction s) (auto simp: split_not_Nil split: list.splits)

lemma last_split: "last (split sep s) = rev (takeWhile (\<lambda>c. c \<noteq> sep) (rev s))"
proof (induction s)
  case Nil
  then show ?case by simp
next
  case (Cons c cs)
  show ?case
  proof (cases "sep \<in> set (c # cs)")
    case False
    then have t: "takeWhile (\<lambda>c. c \<noteq> sep) (rev (c # cs)) = rev (c # cs)"
      by (intro takeWhile_eq_all_conv [THEN iffD2]) auto
    from False have sp: "split sep (c # cs) = [c # cs]" by (rule split_no_sep)
    show ?thesis unfolding t sp by simp
  next
    case True
    show ?thesis
    proof (cases "sep \<in> set cs")
      case True
      then have "takeWhile (\<lambda>c. c \<noteq> sep) (rev cs @ [c]) = takeWhile (\<lambda>c. c \<noteq> sep) (rev cs)"
        by (simp add: takeWhile_append1)
      moreover from True have "tl (split sep cs) \<noteq> []" by (rule split_with_sep)
      ultimately show ?thesis using Cons.IH
        by (auto simp: split_not_Nil split: list.splits)
    next
      case False
      with \<open>sep \<in> set (c # cs)\<close> have "c = sep" by simp
      from False have "takeWhile (\<lambda>c. c \<noteq> sep) (rev cs @ [sep]) = rev cs"
        by (subst takeWhile_append2) auto
      moreover from False have "split sep cs = [cs]" by (rule split_no_sep)
      ultimately show ?thesis using \<open>c = sep\<close> by simp
    qed
  qed
qed

text \<open>The \<open>extension\<close> that parseFile computes is the extension of the file's name.\<close>

lemma extension_eq:
  "map_option toLowerCase (pop (split (CHR ''.'') (fname file))) = Some (nameExtension (fname file))"
  by (simp add: pop_def split_not_Nil last_split nameExtension_def)

lemma parseFile_eq:
  "parseFile env file =
     (if nameExtension (fname file) = ''csv'' then parseCSV env file
      else if nameExtension (fname file) = ''xls'' \<or> nameExtension (fname file) = ''xlsx''
      then parseExcel env file
      else Inl (Error ''Unsupported file format. Please upload CSV or Excel files.''))"
  by (simp add: parseFile_def extension_eq)

lemma parseCSV_Inr:
  "parseCSV env file = Inr ds \<Longrightarrow> data ds \<noteq> [] \<and> rowCount ds = length (data ds)"
  by (auto simp: parseCSV_def split: sum.splits option.splits if_splits)

lemma parseExcel_Inr:
  "parseExcel env file = Inr ds \<Longrightarrow> data ds \<noteq> [] \<and> rowCount ds = length (data ds)"
  by (auto simp: parseExcel_def split: sum.splits option.splits if_splits)

lemma parseFile_Inr:
  "parseFile env file = Inr ds \<Longrightarrow> data ds \<noteq> [] \<and> rowCount ds = length (data ds)"
  by (auto simp: parseFile_eq dest: parseCSV_Inr parseExcel_Inr split: if_splits)

lemma parseCSV_empty:
  "Papa_parse env file = Inr res \<Longrightarrow> results_data res = None \<or> results_data res = Some [] \<Longrightarrow>
     parseCSV env file = Inl (Error ''No data found in CSV file'')"
  by (auto simp: parseCSV_def)

lemma parseExcel_empty:
  "XLSX_decode env file = Inr None \<or> XLSX_decode env file = Inr (Some []) \<Longrightarrow>
     parseExcel env file = Inl (Error ''No data found in Excel file'')"
  by (auto simp: parseExcel_def)

text \<open>
  Claim C9. A file whose name extension is none of csv, xls and xlsx is rejected with the
  error \<open>Unsupported file format\<close>, whatever the decoders would do: none of them is
  consulted. A file that decodes to zero rows (or to no row array) is rejected with the
  error \<open>No data found\<close> of its format, and a dataset that parseFile does return is never
  empty: it has at least one row and \<open>rowCount\<close> is the number of its rows.
\<close>

theorem parseFile_rejections:
  "(nameExtension (fname file) \<notin> {''csv'', ''xls'', ''xlsx''} \<longrightarrow>
      parseFile env file = Inl (Error ''Unsupported file format. Please upload CSV or Excel files.''))
   \<and> (\<forall>res. nameExtension (fname file) = ''csv'' \<and> Papa_parse env file = Inr res
          \<and> (results_data res = None \<or> results_data res = Some []) \<longrightarrow>
        parseFile env file = Inl (Error ''No data found in CSV file''))
   \<and> (nameExtension (fname file) \<in> {''xls'', ''xlsx''}
          \<and> (XLSX_decode env file = Inr None \<or> XLSX_decode env file = Inr (Some [])) \<longrightarrow>
        parseFile env file = Inl (Error ''No data found in Excel file''))
   \<and> (\<forall>ds. parseFile env file = Inr ds \<longrightarrow>
          data ds \<noteq> [] \<and> 0 < rowCount ds \<and> rowCount ds = length (data ds))"
proof (intro conjI allI impI)
  assume "nameExtension (fname file) \<notin> {''csv'', ''xls'', ''xlsx''}"
  then show "parseFile env file
      = Inl (Error ''Unsupported file format. Please upload CSV or Excel files.'')"
    by (simp add: parseFile_eq)
next
  fix res
  assume "nameExtension (fname file) = ''csv'' \<and> Papa_parse env file = Inr res
          \<and> (results_data res = None \<or> results_data res = Some [])"
  then show "parseFile env file = Inl (Error ''No data found in CSV file'')"
    by (simp add: parseFile_eq parseCSV_empty)
next
  assume a: "nameExtension (fname file) \<in> {''xls'', ''xlsx''}
          \<and> (XLSX_decode env file = Inr None \<or> XLSX_decode env file = Inr (Some []))"
  then have "parseExcel env file = Inl (Error ''No data found in Excel file'')"
    by (intro parseExcel_empty) simp
  with a show "parseFile env file = Inl (Error ''No data found in Excel file'')"
    by (auto simp: parseFile_eq)
next
  fix ds
  assume "parseFile env file = Inr ds"
  then have "data ds \<noteq> [] \<and> rowCount ds = length (data ds)" by (rule parseFile_Inr)
  then show "data ds \<noteq> []" and "0 < rowCount ds" and "rowCount ds = length (data ds)"
    by simp_all
qed

theorem parseFile_rejections_witness:
  "parseFile
      \<lparr>Papa_parse = (\<lambda>f. Inr \<lparr>results_data = Some [[(''Region'', Str ''West'')]],
                               results_errors = [], meta_fields = Some [''Region'']\<rparr>),
       XLSX_decode = (\<lambda>f. Inr (Some [[(''Region'', Str ''West'')]]))\<rparr>
      \<lparr>fname = ''report.final.PDF'', mimeType = ''text/csv''\<rparr>
     = Inl (Error ''Unsupported file format. Please upload CSV or Excel files.'')
   \<and> parseFile
      \<lparr>Papa_parse = (\<lambda>f. Inr \<lparr>results_data = Some [], results_errors = [],
                               meta_fields = Some [''Region'']\<rparr>),
       XLSX_decode = (\<lambda>f. Inr (Some []))\<rparr>
      \<lparr>fname = ''Sales.CSV'', mimeType = ''text/csv''\<rparr>
     = Inl (Error ''No data found in CSV file'')
   \<and> parseFile
      \<lparr>Papa_parse = (\<lambda>f. Inr \<lparr>results_data = Some [], results_errors = [],
                               meta_fields = Some [''Region'']\<rparr>),
       XLSX_decode = (\<lambda>f. Inr (Some []))\<rparr>
      \<lparr>fname = ''Sales.xlsx'', mimeType = ''''\<rparr>
     = Inl (Error ''No data found in Excel file'')
   \<and> parseFile
      \<lparr>Papa_parse = (\<lambda>f. Inr \<lparr>results_data = Some [[(''Region'', Str ''West'')]],
                               results_errors = [], meta_fields = Some [''Region'']\<rparr>),
       XLSX_decode = (\<lambda>f. Inr (Some [[(''Region'', Str ''West'')]]))\<rparr>
      \<lparr>fname = ''Sales.csv'', mimeType = ''text/csv''\<rparr>
     = Inr \<lparr>fileName = ''Sales.csv'', headers = [''Region''],
            data = [[(''Region'', Str ''West'')]], rowCount = 1\<rparr>"
proof -
  let ?full = "\<lparr>Papa_parse = (\<lambda>f. Inr \<lparr>results_data = Some [[(''Region'', Str ''West'')]],
                               results_errors = [], meta_fields = Some [''Region'']\<rparr>),
       XLSX_decode = (\<lambda>f. Inr (Some [[(''Region'', Str ''West'')]]))\<rparr>"
  let ?none = "\<lparr>Papa_parse = (\<lambda>f. Inr \<lparr>results_data = Some [], results_errors = [],
                               meta_fields = Some [''Region'']\<rparr>),
       XLSX_decode = (\<lambda>f. Inr (Some []))\<rparr>"
  let ?pdf = "\<lparr>fname = ''report.final.PDF'', mimeType = ''text/csv''\<rparr>"
  let ?csv = "\<lparr>fname = ''Sales.CSV'', mimeType = ''text/csv''\<rparr>"
  let ?xlsx = "\<lparr>fname = ''Sales.xlsx'', mimeType = ''''\<rparr>"
  let ?ok = "\<lparr>fname = ''Sales.csv'', mimeType = ''text/csv''\<rparr>"
  have x: "nameExtension ''report.final.PDF'' = ''pdf''" "nameExtension ''Sales.CSV'' = ''csv''"
    "nameExtension ''Sales.xlsx'' = ''xlsx''" "nameExtension ''Sales.csv'' = ''csv''"
    by (simp_all add: nameExtension_def toLowerCase_def lowerCaseOf_def)
  have 1: "parseFile ?full ?pdf
      = Inl (Error ''Unsupported file format. Please upload CSV or Excel files.'')"
    using parseFile_rejections [of ?pdf ?full] by (simp add: x)
  have 2: "parseFile ?none ?csv = Inl (Error ''No data found in CSV file'')"
    using parseFile_rejections [of ?csv ?none] by (simp add: x)
  have 3: "parseFile ?none ?xlsx = Inl (Error ''No data found in Excel file'')"
    using parseFile_rejections [of ?xlsx ?none] by (simp add: x)
  have 4: "parseFile ?full ?ok
      = Inr \<lparr>fileName = ''Sales.csv'', headers = [''Region''],
            data = [[(''Region'', Str ''West'')]], rowCount = 1\<rparr>"
    by (simp add: parseFile_eq x parseCSV_def)
  from 1 2 3 4 show ?thesis by (intro conjI)
qed

section \<open>Properties of the column classifier\<close>

lemma classifyColumn_Nil:
  "columnValues sampleData header = [] \<Longrightarrow> classifyColumn rt sampleData header = None"
  by (simp add: classifyColumn_def)

lemma classifyColumn_Cons:
  "columnValues sampleData header = firstVal # rest \<Longrightarrow>
     classifyColumn rt sampleData header =
       (if isDate rt firstVal then Some \<lparr>name = header, type = date, options = None\<rparr>
        else if length (Array_from_Set (firstVal # rest)) \<le> 50 then
          Some \<lparr>name = header, type = categorical,
                options = Some (map (String_of rt)
                  (Array_sort (compareOptions rt) (Array_from_Set (firstVal # rest))))\<rparr>
        else None)"
  by (simp add: classifyColumn_def Let_def)

lemma classifyColumn_name:
  "classifyColumn rt sampleData header = Some meta \<Longrightarrow> name meta = header"
  by (cases "columnValues sampleData header")
    (auto simp: classifyColumn_Nil classifyColumn_Cons split: if_splits)

lemma isDate_iff:
  "isDate rt firstVal \<longleftrightarrow>
     (\<exists>s. firstVal = Str s \<and> 5 < length s \<and> parseDate rt s \<noteq> None \<and> isNaN (parseNumber rt s))"
  by (cases firstVal)
    (auto simp: isDate_def Date_parse_def Number_of_def Let_def split: option.splits)

lemma isDate_2020: "\<not> isDate rt (Str ''2020'')"
  by (simp add: isDate_def)

lemma classifyColumn_date_iff:
  "(\<exists>meta. classifyColumn rt sampleData header = Some meta \<and> type meta = date) \<longleftrightarrow>
     (\<exists>firstVal rest. columnValues sampleData header = firstVal # rest \<and> isDate rt firstVal)"
  by (cases "columnValues sampleData header")
    (auto simp: classifyColumn_Nil classifyColumn_Cons)

text \<open>
  Claim C3. A column gets the type \<open>date\<close> iff the first value of the sample that is
  neither null nor undefined is a string of more than five code units that the date
  parser accepts and that \<open>Number\<close> turns into \<open>NaN\<close>. A column whose first such value is
  the string \<open>2020\<close> is therefore never a date column, whatever the engine's parsers do:
  it goes on to the test for a categorical column.
\<close>

theorem date_classification:
  "((\<exists>meta. classifyColumn rt sampleData header = Some meta \<and> type meta = date) \<longleftrightarrow>
      (\<exists>s rest. columnValues sampleData header = Str s # rest \<and> 5 < length s
          \<and> parseDate rt s \<noteq> None \<and> isNaN (parseNumber rt s)))
   \<and> (\<forall>rest. columnValues sampleData header = Str ''2020'' # rest \<longrightarrow>
         classifyColumn rt sampleData header =
           (if length (Array_from_Set (Str ''2020'' # rest)) \<le> 50 then
              Some \<lparr>name = header, type = categorical,
                    options = Some (map (String_of rt)
                      (Array_sort (compareOptions rt) (Array_from_Set (Str ''2020'' # rest))))\<rparr>
            else None))"
proof (intro conjI allI impI)
  show "(\<exists>meta. classifyColumn rt sampleData header = Some meta \<and> type meta = date) \<longleftrightarrow>
      (\<exists>s rest. columnValues sampleData header = Str s # rest \<and> 5 < length s
          \<and> parseDate rt s \<noteq> None \<and> isNaN (parseNumber rt s))"
    unfolding classifyColumn_date_iff isDate_iff by blast
next
  fix rest
  assume "columnValues sampleData header = Str ''2020'' # rest"
  then show "classifyColumn rt sampleData header =
           (if length (Array_from_Set (Str ''2020'' # rest)) \<le> 50 then
              Some \<lparr>name = header, type = categorical,
                    options = Some (map (String_of rt)
                      (Array_sort (compareOptions rt) (Array_from_Set (Str ''2020'' # rest))))\<rparr>
            else None)"
    by (simp add: classifyColumn_Cons isDate_2020)
qed

theorem date_classification_witness:
  "classifyColumn sample_runtime
      [[(''Signup_Date'', Null)], [(''Signup_Date'', Str ''2023-01-15'')],
       [(''Signup_Date'', Str ''n/a'')]] ''Signup_Date''
     = Some \<lparr>name = ''Signup_Date'', type = date, options = None\<rparr>
   \<and> classifyColumn sample_runtime
      [[(''Year'', Str ''2020'')], [(''Year'', Str ''2021'')], [(''Year'', Str ''2020'')]] ''Year''
     = Some \<lparr>name = ''Year'', type = categorical, options = Some [''2020'', ''2021'']\<rparr>"
proof -
  let ?dates = "[[(''Signup_Date'', Null)], [(''Signup_Date'', Str ''2023-01-15'')],
       [(''Signup_Date'', Str ''n/a'')]]"
  let ?years = "[[(''Year'', Str ''2020'')], [(''Year'', Str ''2021'')], [(''Year'', Str ''2020'')]]"
  have v: "columnValues ?dates ''Signup_Date'' = [Str ''2023-01-15'', Str ''n/a'']"
    and w: "columnValues ?years ''Year'' = Str ''2020'' # [Str ''2021'', Str ''2020'']"
    by (simp_all add: columnValues_def get_def)
  have p: "parseDate sample_runtime ''2023-01-15'' \<noteq> None"
    "isNaN (parseNumber sample_runtime ''2023-01-15'')"
    by (simp_all add: sample_runtime_def iso_parseDate_def digits_parseNumber_def digit_val_def)
  note t1 = date_classification [of sample_runtime ?dates "''Signup_Date''"]
  note t2 = date_classification [of sample_runtime ?years "''Year''"]
  from v p have "\<exists>s rest. columnValues ?dates ''Signup_Date'' = Str s # rest \<and> 5 < length s
      \<and> parseDate sample_runtime s \<noteq> None \<and> isNaN (parseNumber sample_runtime s)"
    by simp
  with t1 obtain meta where m: "classifyColumn sample_runtime ?dates ''Signup_Date'' = Some meta"
    and d: "type meta = date"
    by blast
  from m have "name meta = ''Signup_Date''" by (rule classifyColumn_name)
  moreover from m v d have "options meta = None"
    by (auto simp: classifyColumn_Cons split: if_splits)
  ultimately have 1: "classifyColumn sample_runtime ?dates ''Signup_Date''
     = Some \<lparr>name = ''Signup_Date'', type = date, options = None\<rparr>"
    using m d by (cases meta) simp
  from t2 w have "classifyColumn sample_runtime ?years ''Year'' =
           (if length (Array_from_Set (Str ''2020'' # [Str ''2021'', Str ''2020''])) \<le> 50 then
              Some \<lparr>name = ''Year'', type = categorical,
                    options = Some (map (String_of sample_runtime)
                      (Array_sort (compareOptions sample_runtime)
                         (Array_from_Set (Str ''2020'' # [Str ''2021'', Str ''2020'']))))\<rparr>
            else None)"
    by blast
  then have 2: "classifyColumn sample_runtime ?years ''Year''
     = Some \<lparr>name = ''Year'', type = categorical, options = Some [''2020'', ''2021'']\<rparr>"
    by (simp add: Array_from_Set_def Set_add_def Array_sort_def compareOptions_def
        sample_runtime_def)
  from 1 2 show ?thesis by (intro conjI)
qed







text \<open>
  Claim C4, at a column that mixes numbers and strings. The sample values 5, 10 and the
  string \<open>10+\<close> are three distinct values. The comparator of the options orders them in a
  cycle: 5 after \<open>10+\<close> (as strings), \<open>10+\<close> after 10 (as strings) and 10 after 5 (as
  numbers). No arrangement of the three is sorted by it, and the options that the
  classifier emits follow the order in which the values appear in the sample: the same
  three values give \<open>5, 10, 10+\<close> in one order of the rows and \<open>10+, 5, 10\<close> in another.
\<close>

theorem options_on_mixed_column:
  "classifyColumn sample_runtime
      [[(''Age'', Num (Finite 5))], [(''Age'', Num (Finite 10))], [(''Age'', Str ''10+'')]] ''Age''
     = Some \<lparr>name = ''Age'', type = categorical, options = Some [''5'', ''10'', ''10+'']\<rparr>
   \<and> classifyColumn sample_runtime
      [[(''Age'', Str ''10+'')], [(''Age'', Num (Finite 5))], [(''Age'', Num (Finite 10))]] ''Age''
     = Some \<lparr>name = ''Age'', type = categorical, options = Some [''10+'', ''5'', ''10'']\<rparr>
   \<and> js_lt (Finite 0) (compareOptions sample_runtime (Num (Finite 5)) (Str ''10+''))
   \<and> js_lt (Finite 0) (compareOptions sample_runtime (Str ''10+'') (Num (Finite 10)))
   \<and> js_lt (Finite 0) (compareOptions sample_runtime (Num (Finite 10)) (Num (Finite 5)))"
proof -
  have n: "integer_showNumber 5 = ''5''" "integer_showNumber 10 = ''10''"
    by (simp_all add: integer_showNumber_def decimal.simps [of 10] decimal.simps [of "Suc 0"]
        decimal.simps [of 5])
  have c: "compareOptions sample_runtime (Num (Finite 5)) (Str ''10+'') = Finite 1"
    "compareOptions sample_runtime (Str ''10+'') (Num (Finite 5)) = Finite (- 1)"
    "compareOptions sample_runtime (Str ''10+'') (Num (Finite 10)) = Finite 1"
    "compareOptions sample_runtime (Num (Finite 10)) (Str ''10+'') = Finite (- 1)"
    "compareOptions sample_runtime (Num (Finite 10)) (Num (Finite 5)) = Finite 5"
    "compareOptions sample_runtime (Num (Finite 5)) (Num (Finite 10)) = Finite (- 5)"
    by (simp_all add: compareOptions_def sample_runtime_def n)
  have s: "showNumber sample_runtime 5 = ''5''" "showNumber sample_runtime 10 = ''10''"
    by (simp_all add: sample_runtime_def n)
  have 1: "classifyColumn sample_runtime
      [[(''Age'', Num (Finite 5))], [(''Age'', Num (Finite 10))], [(''Age'', Str ''10+'')]] ''Age''
     = Some \<lparr>name = ''Age'', type = categorical, options = Some [''5'', ''10'', ''10+'']\<rparr>"
    by (simp add: classifyColumn_def columnValues_def get_def isDate_def Array_from_Set_def
        Set_add_def Array_sort_def c s)
  have 2: "classifyColumn sample_runtime
      [[(''Age'', Str ''10+'')], [(''Age'', Num (Finite 5))], [(''Age'', Num (Finite 10))]] ''Age''
     = Some \<lparr>name = ''Age'', type = categorical, options = Some [''10+'', ''5'', ''10'']\<rparr>"
    by (simp add: classifyColumn_def columnValues_def get_def isDate_def Array_from_Set_def
        Set_add_def Array_sort_def c s)
  have 3: "js_lt (Finite 0) (compareOptions sample_runtime (Num (Finite 5)) (Str ''10+''))"
    and 4: "js_lt (Finite 0) (compareOptions sample_runtime (Str ''10+'') (Num (Finite 10)))"
    and 5: "js_lt (Finite 0) (compareOptions sample_runtime (Num (Finite 10)) (Num (Finite 5)))"
    by (simp_all add: c)
  from 1 2 3 4 5 show ?thesis by (intro conjI)
qed

section \<open>The options of a column of one type\<close>

lemma set_foldl_Set_add: "set (foldl Set_add acc vs) = set acc \<union> set vs"
  by (induction vs arbitrary: acc) (auto simp: Set_add_def)

lemma distinct_foldl_Set_add: "distinct acc \<Longrightarrow> distinct (foldl Set_add acc vs)"
  by (induction vs arbitrary: acc) (auto simp: Set_add_def)

lemma set_Array_from_Set: "set (Array_from_Set vs) = set vs"
  by (simp add: Array_from_Set_def set_foldl_Set_add)

lemma distinct_Array_from_Set: "distinct (Array_from_Set vs)"
  by (simp add: Array_from_Set_def distinct_foldl_Set_add)

lemma length_Array_from_Set: "length (Array_from_Set vs) = card (set vs)"
  using distinct_card [OF distinct_Array_from_Set, of vs] by (simp add: set_Array_from_Set)

lemma set_insort_by: "set (insort_by cmp x xs) = insert x (set xs)"
  by (induction xs) auto

lemma set_Array_sort: "set (Array_sort cmp xs) = set xs"
  by (induction xs) (simp_all add: Array_sort_def set_insort_by)

lemma distinct_insort_by: "distinct (insort_by cmp x xs) \<longleftrightarrow> x \<notin> set xs \<and> distinct xs"
  by (induction xs) (auto simp: set_insort_by)

lemma distinct_Array_sort: "distinct (Array_sort cmp xs) \<longleftrightarrow> distinct xs"
proof (induction xs)
  case Nil
  then show ?case by (simp add: Array_sort_def)
next
  case (Cons x xs)
  have "Array_sort cmp (x # xs) = insort_by cmp x (Array_sort cmp xs)"
    by (simp add: Array_sort_def)
  with Cons show ?case by (simp add: distinct_insort_by set_Array_sort)
qed

lemma sorted_insort_by:
  assumes total: "\<And>y. y \<in> set xs \<Longrightarrow> precedes cmp x y \<or> precedes cmp y x"
    and trans: "\<And>y z. y \<in> set xs \<Longrightarrow> z \<in> set xs \<Longrightarrow> precedes cmp x y \<Longrightarrow>
        precedes cmp y z \<Longrightarrow> precedes cmp x z"
    and sorted: "sorted_wrt (precedes cmp) xs"
  shows "sorted_wrt (precedes cmp) (insort_by cmp x xs)"
  using assms
proof (induction xs)
  case Nil
  show ?case by simp
next
  case (Cons y ys)
  show ?case
  proof (cases "precedes cmp x y")
    case True
    then have e: "insort_by cmp x (y # ys) = x # y # ys"
      by (simp add: precedes_def)
    have "precedes cmp x z" if "z \<in> set ys" for z
      using Cons.prems(2) [of y z] Cons.prems(3) True that by simp
    with True Cons.prems(3) show ?thesis unfolding e by simp
  next
    case False
    then have e: "insort_by cmp x (y # ys) = y # insort_by cmp x ys"
      by (simp add: precedes_def)
    from False Cons.prems(1) [of y] have "precedes cmp y x" by simp
    moreover have "sorted_wrt (precedes cmp) (insort_by cmp x ys)"
      using Cons.prems by (intro Cons.IH) auto
    ultimately show ?thesis
      unfolding e using Cons.prems(3) by (simp add: set_insort_by)
  qed
qed

lemma sorted_Array_sort:
  assumes total: "\<And>a b. a \<in> set xs \<Longrightarrow> b \<in> set xs \<Longrightarrow> precedes cmp a b \<or> precedes cmp b a"
    and trans: "\<And>a b c. a \<in> set xs \<Longrightarrow> b \<in> set xs \<Longrightarrow> c \<in> set xs \<Longrightarrow>
        precedes cmp a b \<Longrightarrow> precedes cmp b c \<Longrightarrow> precedes cmp a c"
  shows "sorted_wrt (precedes cmp) (Array_sort cmp xs)"
  using assms
proof (induction xs)
  case Nil
  show ?case by (simp add: Array_sort_def)
next
  case (Cons x xs)
  have e: "Array_sort cmp (x # xs) = insort_by cmp x (Array_sort cmp xs)"
    by (simp add: Array_sort_def)
  have s: "sorted_wrt (precedes cmp) (Array_sort cmp xs)"
  proof (rule Cons.IH)
    fix a b assume "a \<in> set xs" "b \<in> set xs"
    then have "a \<in> set (x # xs)" "b \<in> set (x # xs)" by simp_all
    then show "precedes cmp a b \<or> precedes cmp b a" by (rule Cons.prems(1))
  next
    fix a b c assume "a \<in> set xs" "b \<in> set xs" "c \<in> set xs"
      and p: "precedes cmp a b" "precedes cmp b c"
    then have "a \<in> set (x # xs)" "b \<in> set (x # xs)" "c \<in> set (x # xs)" by simp_all
    then show "precedes cmp a c" using p by (rule Cons.prems(2))
  qed
  show ?case
    unfolding e
  proof (rule sorted_insort_by [OF _ _ s])
    fix y assume "y \<in> set (Array_sort cmp xs)"
    then have "x \<in> set (x # xs)" "y \<in> set (x # xs)" by (simp_all add: set_Array_sort)
    then show "precedes cmp x y \<or> precedes cmp y x" by (rule Cons.prems(1))
  next
    fix y z assume "y \<in> set (Array_sort cmp xs)" "z \<in> set (Array_sort cmp xs)"
      and p: "precedes cmp x y" "precedes cmp y z"
    then have "x \<in> set (x # xs)" "y \<in> set (x # xs)" "z \<in> set (x # xs)"
      by (simp_all add: set_Array_sort)
    then show "precedes cmp x z" using p by (rule Cons.prems(2))
  qed
qed

lemma sorted_wrt_unique:
  assumes antisym: "\<And>a b. a \<in> set xs \<Longrightarrow> b \<in> set xs \<Longrightarrow> P a b \<Longrightarrow> P b a \<Longrightarrow> a = b"
    and "sorted_wrt P xs" and "sorted_wrt P ys"
    and "distinct xs" and "distinct ys" and "set xs = set ys"
  shows "xs = ys"
  using assms
proof (induction xs arbitrary: ys)
  case Nil
  then show ?case by simp
next
  case (Cons x xs)
  from Cons.prems(6) obtain y ys' where ys: "ys = y # ys'"
    by (cases ys) auto
  have xy: "x = y"
  proof (rule ccontr)
    assume ne: "x \<noteq> y"
    with Cons.prems(6) ys have "x \<in> set ys'" and "y \<in> set xs" by auto
    with Cons.prems(2,3) ys have "P y x" and "P x y" by auto
    with Cons.prems(1) [of x y] \<open>y \<in> set xs\<close> have "x = y" by simp
    with ne show False by simp
  qed
  from Cons.prems(4,5) ys xy have "y \<notin> set xs" and "y \<notin> set ys'" by simp_all
  moreover from Cons.prems(6) ys xy have "insert y (set xs) = insert y (set ys')" by simp
  ultimately have st: "set xs = set ys'" by (simp add: insert_ident)
  have "xs = ys'"
  proof (rule Cons.IH)
    show "a = b" if "a \<in> set xs" "b \<in> set xs" "P a b" "P b a" for a b
      using Cons.prems(1) [of a b] that by simp
    show "sorted_wrt P xs" using Cons.prems(2) by simp
    show "sorted_wrt P ys'" using Cons.prems(3) ys by simp
    show "distinct xs" using Cons.prems(4) by simp
    show "distinct ys'" using Cons.prems(5) ys by simp
    show "set xs = set ys'" by (rule st)
  qed
  with xy ys show ?case by simp
qed

lemma precedes_numbers:
  "isNumber a \<Longrightarrow> isNumber b \<Longrightarrow> precedes (compareOptions rt) a b \<longleftrightarrow>
     (case (a, b) of (Num x, Num y) \<Rightarrow> js_le x y | _ \<Rightarrow> False)"
  by (cases a; cases b; simp add: precedes_def compareOptions_def)
    (rename_tac x y, case_tac x; case_tac y; simp add: not_less)

lemma precedes_strings:
  "isString a \<Longrightarrow> isString b \<Longrightarrow> precedes (compareOptions rt) a b \<longleftrightarrow>
     localeCompare rt (String_of rt a) (String_of rt b) \<le> 0"
  by (cases a; cases b; simp add: precedes_def compareOptions_def not_less)

lemma numbers_total:
  "isNumber a \<Longrightarrow> isNumber b \<Longrightarrow>
     precedes (compareOptions rt) a b \<or> precedes (compareOptions rt) b a"
  by (cases a; cases b; simp add: precedes_def compareOptions_def)
    (rename_tac x y, case_tac x; case_tac y; simp add: not_less)

lemma numbers_trans:
  "isNumber a \<Longrightarrow> isNumber b \<Longrightarrow> isNumber c \<Longrightarrow> precedes (compareOptions rt) a b \<Longrightarrow>
     precedes (compareOptions rt) b c \<Longrightarrow> precedes (compareOptions rt) a c"
  by (cases a; cases b; cases c; simp add: precedes_def compareOptions_def)
    (rename_tac x y z, case_tac x; case_tac y; case_tac z; simp add: not_less)

lemma numbers_antisym:
  "isNumber a \<Longrightarrow> isNumber b \<Longrightarrow> precedes (compareOptions rt) a b \<Longrightarrow>
     precedes (compareOptions rt) b a \<Longrightarrow> a = b"
  by (cases a; cases b; simp add: precedes_def compareOptions_def)
    (rename_tac x y, case_tac x; case_tac y; simp add: not_less)

lemma linear_compare_total: "linear_compare lc \<Longrightarrow> lc a b \<le> 0 \<or> lc b a \<le> 0"
  unfolding linear_compare_def by blast

lemma linear_compare_trans:
  "linear_compare lc \<Longrightarrow> lc a b \<le> 0 \<Longrightarrow> lc b c \<le> 0 \<Longrightarrow> lc a c \<le> 0"
  unfolding linear_compare_def by blast

lemma linear_compare_antisym:
  "linear_compare lc \<Longrightarrow> lc a b \<le> 0 \<Longrightarrow> lc b a \<le> 0 \<Longrightarrow> a = b"
  unfolding linear_compare_def by blast

lemma strings_total:
  assumes "linear_compare (localeCompare rt)" and "isString a" and "isString b"
  shows "precedes (compareOptions rt) a b \<or> precedes (compareOptions rt) b a"
  using linear_compare_total [OF assms(1), of "String_of rt a" "String_of rt b"] assms(2,3)
  by (simp add: precedes_strings)

lemma strings_trans:
  assumes "linear_compare (localeCompare rt)" and "isString a" and "isString b" and "isString c"
    and "precedes (compareOptions rt) a b" and "precedes (compareOptions rt) b c"
  shows "precedes (compareOptions rt) a c"
  using linear_compare_trans [OF assms(1), of "String_of rt a" "String_of rt b" "String_of rt c"]
    assms(2-)
  by (simp add: precedes_strings)

lemma strings_antisym:
  assumes "linear_compare (localeCompare rt)" and "isString a" and "isString b"
    and "precedes (compareOptions rt) a b" and "precedes (compareOptions rt) b a"
  shows "a = b"
proof -
  from assms(2,3) obtain s t where st: "a = Str s" "b = Str t"
    by (cases a; cases b) simp_all
  with assms(4,5) have "localeCompare rt s t \<le> 0" "localeCompare rt t s \<le> 0"
    by (simp_all add: precedes_strings)
  with assms(1) have "s = t" by (rule linear_compare_antisym)
  with st show ?thesis by simp
qed

text \<open>
  On a set of values that are all numbers or all strings the comparator of the options is
  a linear order.
\<close>

lemma uniform_linear:
  assumes "linear_compare (localeCompare rt)"
    and "(\<forall>x \<in> S. isNumber x) \<or> (\<forall>x \<in> S. isString x)"
  shows "\<And>a b. a \<in> S \<Longrightarrow> b \<in> S \<Longrightarrow>
            precedes (compareOptions rt) a b \<or> precedes (compareOptions rt) b a"
    and "\<And>a b c. a \<in> S \<Longrightarrow> b \<in> S \<Longrightarrow> c \<in> S \<Longrightarrow> precedes (compareOptions rt) a b \<Longrightarrow>
            precedes (compareOptions rt) b c \<Longrightarrow> precedes (compareOptions rt) a c"
    and "\<And>a b. a \<in> S \<Longrightarrow> b \<in> S \<Longrightarrow> precedes (compareOptions rt) a b \<Longrightarrow>
            precedes (compareOptions rt) b a \<Longrightarrow> a = b"
proof -
  fix a b assume "a \<in> S" "b \<in> S"
  with assms show "precedes (compareOptions rt) a b \<or> precedes (compareOptions rt) b a"
    using numbers_total [of a b rt] strings_total [of rt a b] by blast
next
  fix a b c assume "a \<in> S" "b \<in> S" "c \<in> S"
    "precedes (compareOptions rt) a b" "precedes (compareOptions rt) b c"
  with assms show "precedes (compareOptions rt) a c"
    using numbers_trans [of a b c rt] strings_trans [of rt a b c] by blast
next
  fix a b assume "a \<in> S" "b \<in> S"
    "precedes (compareOptions rt) a b" "precedes (compareOptions rt) b a"
  with assms show "a = b"
    using numbers_antisym [of a b rt] strings_antisym [of rt a b] by blast
qed

text \<open>
  Columns of one type. When the date test fails on a column whose sample values are all
  numbers or all strings, and strings are compared by a linear order: with at most 50
  distinct values the column is categorical and its options are the string forms of the
  distinct values, each once, sorted by the comparator; they depend on the set of the
  sample values only, not on their order; with more than 50 distinct values the column
  gets no descriptor.
\<close>

theorem options_on_uniform_column:
  assumes lin: "linear_compare (localeCompare rt)"
    and vals: "columnValues sampleData header = v # vs"
    and nodate: "\<not> isDate rt v"
    and uniform: "(\<forall>x \<in> set (v # vs). isNumber x) \<or> (\<forall>x \<in> set (v # vs). isString x)"
  shows "classifyColumn rt sampleData header =
      (if card (set (v # vs)) \<le> 50 then
         Some \<lparr>name = header, type = categorical,
               options = Some (map (String_of rt)
                 (Array_sort (compareOptions rt) (Array_from_Set (v # vs))))\<rparr>
       else None)
    \<and> set (Array_sort (compareOptions rt) (Array_from_Set (v # vs))) = set (v # vs)
    \<and> distinct (Array_sort (compareOptions rt) (Array_from_Set (v # vs)))
    \<and> sorted_wrt (precedes (compareOptions rt))
         (Array_sort (compareOptions rt) (Array_from_Set (v # vs)))
    \<and> (\<forall>ws. set ws = set (v # vs) \<longrightarrow>
          Array_sort (compareOptions rt) (Array_from_Set ws)
            = Array_sort (compareOptions rt) (Array_from_Set (v # vs)))"
proof -
  let ?sort = "\<lambda>xs. Array_sort (compareOptions rt) (Array_from_Set xs)"
  note lo = uniform_linear [OF lin, of "set (v # vs)", OF uniform]
  have sorted: "sorted_wrt (precedes (compareOptions rt)) (?sort ws)"
    if "set ws = set (v # vs)" for ws
  proof (rule sorted_Array_sort)
    fix a b assume "a \<in> set (Array_from_Set ws)" "b \<in> set (Array_from_Set ws)"
    with that have "a \<in> set (v # vs)" "b \<in> set (v # vs)"
      by (simp_all only: set_Array_from_Set)
    then show "precedes (compareOptions rt) a b \<or> precedes (compareOptions rt) b a"
      by (rule lo(1))
  next
    fix a b c assume "a \<in> set (Array_from_Set ws)" "b \<in> set (Array_from_Set ws)"
      "c \<in> set (Array_from_Set ws)"
      and p: "precedes (compareOptions rt) a b" "precedes (compareOptions rt) b c"
    with that have "a \<in> set (v # vs)" "b \<in> set (v # vs)" "c \<in> set (v # vs)"
      by (simp_all only: set_Array_from_Set)
    then show "precedes (compareOptions rt) a c" using p by (rule lo(2))
  qed
  have 1: "classifyColumn rt sampleData header =
      (if card (set (v # vs)) \<le> 50 then
         Some \<lparr>name = header, type = categorical,
               options = Some (map (String_of rt) (?sort (v # vs)))\<rparr>
       else None)"
    using nodate by (simp only: classifyColumn_Cons [OF vals] length_Array_from_Set if_False)
  have 2: "set (?sort (v # vs)) = set (v # vs)"
    by (simp only: set_Array_sort set_Array_from_Set)
  have 3: "distinct (?sort (v # vs))"
    by (simp only: distinct_Array_sort distinct_Array_from_Set)
  have 4: "sorted_wrt (precedes (compareOptions rt)) (?sort (v # vs))"
    by (rule sorted) (rule refl)
  have 5: "\<forall>ws. set ws = set (v # vs) \<longrightarrow> ?sort ws = ?sort (v # vs)"
  proof (intro allI impI)
    fix ws assume ws: "set ws = set (v # vs)"
    show "?sort ws = ?sort (v # vs)"
    proof (rule sorted_wrt_unique [where P = "precedes (compareOptions rt)"])
      fix a b assume "a \<in> set (?sort ws)" "b \<in> set (?sort ws)"
        and p: "precedes (compareOptions rt) a b" "precedes (compareOptions rt) b a"
      with ws have "a \<in> set (v # vs)" "b \<in> set (v # vs)"
        by (simp_all only: set_Array_sort set_Array_from_Set)
      then show "a = b" using p by (rule lo(3))
    next
      show "sorted_wrt (precedes (compareOptions rt)) (?sort ws)" using ws by (rule sorted)
      show "sorted_wrt (precedes (compareOptions rt)) (?sort (v # vs))" by (rule 4)
      show "distinct (?sort ws)" by (simp only: distinct_Array_sort distinct_Array_from_Set)
      show "distinct (?sort (v # vs))" by (rule 3)
      show "set (?sort ws) = set (?sort (v # vs))"
        using ws by (simp only: set_Array_sort set_Array_from_Set)
    qed
  qed
  from 1 2 3 4 5 show ?thesis by (intro conjI)
qed

text \<open>The comparison of the sample engine is such a linear order.\<close>

lemma codeunit_compare_total: "codeunit_compare a b \<le> 0 \<or> codeunit_compare b a \<le> 0"
  by (induction a b rule: codeunit_compare.induct) auto

lemma codeunit_compare_antisym:
  "codeunit_compare a b \<le> 0 \<Longrightarrow> codeunit_compare b a \<le> 0 \<Longrightarrow> a = b"
  by (induction a b rule: codeunit_compare.induct) (auto split: if_splits)

lemma codeunit_compare_trans:
  "codeunit_compare a b \<le> 0 \<Longrightarrow> codeunit_compare b c \<le> 0 \<Longrightarrow> codeunit_compare a c \<le> 0"
proof (induction a arbitrary: b c)
  case Nil
  then show ?case by (cases c) simp_all
next
  case (Cons x xs)
  then show ?case
    by (cases b; cases c) (auto split: if_splits)
qed

lemma linear_compare_sample: "linear_compare (localeCompare sample_runtime)"
proof -
  have "linear_compare codeunit_compare"
    unfolding linear_compare_def
    using codeunit_compare_total codeunit_compare_antisym codeunit_compare_trans by blast
  then show ?thesis by (simp add: sample_runtime_def)
qed

section \<open>A column that mixes numbers and strings\<close>

text \<open>
  Three distinct values that the comparator orders in a cycle have no sorted arrangement,
  whatever algorithm arranges them.
\<close>

lemma cycle_not_sorted:
  assumes "x \<in> set ys" and "y \<in> set ys" and "z \<in> set ys"
    and "\<not> P x y" and "\<not> P y z" and "\<not> P z x"
    and "x \<noteq> y" and "y \<noteq> z" and "z \<noteq> x"
  shows "\<not> sorted_wrt P ys"
proof
  assume "sorted_wrt P ys"
  then have s: "P (ys ! a) (ys ! b)" if "a < b" "b < length ys" for a b
    using that by (simp add: sorted_wrt_iff_nth_less)
  from assms(1-3) obtain i j k where i: "i < length ys" "ys ! i = x"
    and j: "j < length ys" "ys ! j = y" and k: "k < length ys" "ys ! k = z"
    by (auto simp: in_set_conv_nth)
  have "\<not> i < j" using s [of i j] i j assms(4) by auto
  moreover have "i \<noteq> j" using i j assms(7) by auto
  moreover have "\<not> j < k" using s [of j k] j k assms(5) by auto
  moreover have "j \<noteq> k" using j k assms(8) by auto
  moreover have "\<not> k < i" using s [of k i] i k assms(6) by auto
  moreover have "k \<noteq> i" using i k assms(9) by auto
  ultimately show False by linarith
qed

lemma mixed_column_cycle:
  "\<not> precedes (compareOptions sample_runtime) (Num (Finite 5)) (Str ''10+'')"
  "\<not> precedes (compareOptions sample_runtime) (Str ''10+'') (Num (Finite 10))"
  "\<not> precedes (compareOptions sample_runtime) (Num (Finite 10)) (Num (Finite 5))"
proof -
  have n: "integer_showNumber 5 = ''5''" "integer_showNumber 10 = ''10''"
    by (simp_all add: integer_showNumber_def decimal.simps [of 10] decimal.simps [of "Suc 0"]
        decimal.simps [of 5])
  show "\<not> precedes (compareOptions sample_runtime) (Num (Finite 5)) (Str ''10+'')"
    "\<not> precedes (compareOptions sample_runtime) (Str ''10+'') (Num (Finite 10))"
    "\<not> precedes (compareOptions sample_runtime) (Num (Finite 10)) (Num (Finite 5))"
    by (simp_all add: precedes_def compareOptions_def sample_runtime_def n)
qed

lemma mixed_column_never_sorted:
  assumes "set ys = {Num (Finite 5), Num (Finite 10), Str ''10+''}"
  shows "\<not> sorted_wrt (precedes (compareOptions sample_runtime)) ys"
proof (rule cycle_not_sorted)
  show "Num (Finite 5) \<in> set ys" "Str ''10+'' \<in> set ys" "Num (Finite 10) \<in> set ys"
    using assms by simp_all
  show "\<not> precedes (compareOptions sample_runtime) (Num (Finite 5)) (Str ''10+'')"
    "\<not> precedes (compareOptions sample_runtime) (Str ''10+'') (Num (Finite 10))"
    "\<not> precedes (compareOptions sample_runtime) (Num (Finite 10)) (Num (Finite 5))"
    by (rule mixed_column_cycle)+
  show "Num (Finite 5) \<noteq> Str ''10+''" "Str ''10+'' \<noteq> Num (Finite 10)"
    "Num (Finite 10) \<noteq> Num (Finite 5)"
    by simp_all
qed

end
